theory Spec2Isabelle
  imports Main
begin

section \<open>Persistence schema (server/app/models.py)\<close>

text \<open>
  A \<open>DateTime\<close> column holds a reading of \<open>datetime.utcnow\<close>; it is modelled as a natural
  number (ticks of the clock). Primary keys are Python integers. A Python \<open>str\<close> is a
  \<open>string\<close>; one list element stands for one character of the Python string, so that
  \<open>length\<close> is Python's \<open>len\<close> and \<open>take 50\<close> is the slice \<open>[:50]\<close>.
\<close>

type_synonym datetime = nat

record user_row =
  u_id :: int
  google_id :: string
  email :: string
  name :: "string option"
  picture :: "string option"
  u_created_at :: datetime
  last_login :: datetime

record conversation_row =
  c_id :: int
  user_id :: int
  title :: string
  c_created_at :: datetime

record message_row =
  m_id :: int
  conversation_id :: int
  sender :: string
  content :: string
  timestamp :: datetime

text \<open>
  The database: one list of rows per table, in insertion order. Every handler commits
  right after its \<open>db.add\<close> or \<open>db.delete\<close>, so a handler is a function from the
  committed state to the committed state.
\<close>

record db =
  users :: "user_row list"
  conversations :: "conversation_row list"
  messages :: "message_row list"

text \<open>
  An \<open>Integer\<close> primary key is assigned by the database on insert: a value above every
  key of the table, starting at 1.
\<close>

definition next_id :: "int list \<Rightarrow> int" where
  "next_id ids = fold max ids 0 + 1"

text \<open>
  \<open>query.first()\<close> is the first matching row or \<open>None\<close>. \<open>order_by(col.asc())\<close> sorts the
  rows by ascending key, \<open>order_by(col.desc())\<close> by descending key; in both, rows with
  equal keys stay in insertion order. SQL leaves the order of rows with equal keys to the
  database; the general statements below that depend on the position of a row assume
  that its key differs from the others.
\<close>

definition first :: "('a \<Rightarrow> bool) \<Rightarrow> 'a list \<Rightarrow> 'a option" where
  "first P rows = List.find P rows"

definition order_by_asc :: "('a \<Rightarrow> datetime) \<Rightarrow> 'a list \<Rightarrow> 'a list" where
  "order_by_asc col rows = sort_key col rows"

definition order_by_desc :: "('a \<Rightarrow> datetime) \<Rightarrow> 'a list \<Rightarrow> 'a list" where
  "order_by_desc col rows = rev (sort_key col (rev rows))"

section \<open>Requests, sessions, responses (server/app/main.py)\<close>

text \<open>
  The user-info claims of the identity provider are a dictionary, kept as an association
  list. The signed session cookie holds at most one entry, \<open>'user'\<close>, whose value is such
  a dictionary: \<open>request.session.get('user')\<close> is the session itself here.
\<close>

type_synonym claims = "(string \<times> string) list"
type_synonym session = "claims option"

record chat_request =
  message :: string
  chat_conversation_id :: "int option"

datatype error =
    HTTPException (status_code: nat) (detail: string)
  | KeyError string
  | IntegrityError string
  | OverflowError string

datatype json =
    JNull
  | JInt int
  | JStr string
  | JTime datetime
  | JList "json list"
  | JObj "(string \<times> json) list"

text \<open>
  A dictionary returned by a handler is sent by the framework as a JSON body with status
  200. \<open>JTime t\<close> is the \<open>isoformat()\<close> text of the datetime \<open>t\<close>.
\<close>

datatype response =
    JSONResponse (status: nat) (body: json)
  | RedirectResponse string

text \<open>Python truthiness of an optional dictionary and of an optional integer.\<close>

definition truthy_dict :: "claims option \<Rightarrow> bool" where
  "truthy_dict d = (case d of None \<Rightarrow> False | Some kvs \<Rightarrow> kvs \<noteq> [])"

definition truthy_int :: "int option \<Rightarrow> bool" where
  "truthy_int i = (case i of None \<Rightarrow> False | Some n \<Rightarrow> n \<noteq> 0)"

definition get_current_user_from_session :: "session \<Rightarrow> db \<Rightarrow> error + user_row option" where
  "get_current_user_from_session user_data d =
     (if \<not> truthy_dict user_data then Inr None
      else case map_of (the user_data) ''sub'' of
             None \<Rightarrow> Inl (KeyError ''sub'')
           | Some sub \<Rightarrow> Inr (first (\<lambda>u. google_id u = sub) (users d)))"

subsection \<open>GET /auth\<close>

text \<open>
  \<open>auth user sess d now\<close>: \<open>user\<close> is what \<open>oauth.google.userinfo\<close> returned after the
  token exchange, \<open>now\<close> the clock reading taken if a row is inserted. The result is the
  response (or the exception that leaves the handler), the session and the database.
  The columns \<open>google_id\<close> and \<open>email\<close> are unique: the commit of a row whose email is
  taken raises.
\<close>

definition auth :: "claims option \<Rightarrow> session \<Rightarrow> db \<Rightarrow> datetime \<Rightarrow> (error + response) \<times> session \<times> db" where
  "auth user sess d now =
     (if truthy_dict user then
        (case map_of (the user) ''sub'' of
           None \<Rightarrow> (Inl (KeyError ''sub''), sess, d)
         | Some sub \<Rightarrow>
            (case first (\<lambda>u. google_id u = sub) (users d) of
               Some existing_user \<Rightarrow>
                 (Inr (RedirectResponse ''http://localhost:3000/chat''), Some (the user), d)
             | None \<Rightarrow>
                (case map_of (the user) ''email'' of
                   None \<Rightarrow> (Inl (KeyError ''email''), sess, d)
                 | Some em \<Rightarrow>
                    (if em \<in> set (map email (users d))
                     then (Inl (IntegrityError ''users.email''), sess, d)
                     else
                       (let new_user = \<lparr> u_id = next_id (map u_id (users d)),
                                         google_id = sub,
                                         email = em,
                                         name = map_of (the user) ''name'',
                                         picture = map_of (the user) ''picture'',
                                         u_created_at = now,
                                         last_login = now \<rparr>
                        in (Inr (RedirectResponse ''http://localhost:3000/chat''),
                            Some (the user),
                            d\<lparr>users := users d @ [new_user]\<rparr>))))))
      else (Inr (JSONResponse 200 (JObj [(''error'', JStr ''Authentication failed'')])), sess, d))"

subsection \<open>Conversations and messages\<close>

text \<open>
  An integer that a handler compares with a key column is bound as a parameter of the
  query. The database driver takes a signed 64-bit value there and raises
  \<open>OverflowError\<close> on any other integer; the exception leaves the handler. (The engine
  is created in \<open>app/database.py\<close>, outside these sources; this is the driver of the
  SQLite engine.)
\<close>

definition bindable :: "int \<Rightarrow> bool" where
  "bindable n \<longleftrightarrow> - (2 ^ 63) \<le> n \<and> n < 2 ^ 63"

definition int_too_large :: error where
  "int_too_large = OverflowError ''Python int too large to convert to SQLite INTEGER''"

definition not_authenticated :: error where
  "not_authenticated = HTTPException 401 ''Not authenticated''"

definition conversation_not_found :: error where
  "conversation_not_found = HTTPException 404 ''Conversation not found''"

definition conversation_json :: "conversation_row \<Rightarrow> json" where
  "conversation_json conv =
     JObj [(''id'', JInt (c_id conv)), (''title'', JStr (title conv)),
           (''created_at'', JTime (c_created_at conv))]"

definition message_json :: "message_row \<Rightarrow> json" where
  "message_json msg =
     JObj [(''id'', JInt (m_id msg)), (''content'', JStr (content msg)),
           (''sender'', JStr (sender msg)), (''timestamp'', JTime (timestamp msg))]"

definition get_conversations :: "session \<Rightarrow> db \<Rightarrow> (error + response) \<times> db" where
  "get_conversations sess d =
     (case get_current_user_from_session sess d of
        Inl e \<Rightarrow> (Inl e, d)
      | Inr None \<Rightarrow> (Inl not_authenticated, d)
      | Inr (Some db_user) \<Rightarrow>
         (let convs = order_by_desc c_created_at
                        (filter (\<lambda>c. user_id c = u_id db_user) (conversations d))
          in (Inr (JSONResponse 200
                (JObj [(''conversations'', JList (map conversation_json convs))])), d)))"

text \<open>
  \<open>create_conversation\<close> takes the title of the validated request body: the field
  defaults to \<open>"New Chat"\<close> when absent and may be an explicit null, which the
  \<open>NOT NULL\<close> column rejects at commit.
\<close>

definition create_conversation ::
  "string option \<Rightarrow> session \<Rightarrow> db \<Rightarrow> datetime \<Rightarrow> (error + response) \<times> db" where
  "create_conversation conversation_title sess d now =
     (case get_current_user_from_session sess d of
        Inl e \<Rightarrow> (Inl e, d)
      | Inr None \<Rightarrow> (Inl not_authenticated, d)
      | Inr (Some db_user) \<Rightarrow>
         (case conversation_title of
            None \<Rightarrow> (Inl (IntegrityError ''conversations.title''), d)
          | Some t \<Rightarrow>
             (let new_conversation = \<lparr> c_id = next_id (map c_id (conversations d)),
                                       user_id = u_id db_user,
                                       title = t,
                                       c_created_at = now \<rparr>
              in (Inr (JSONResponse 200 (conversation_json new_conversation)),
                  d\<lparr>conversations := conversations d @ [new_conversation]\<rparr>))))"

text \<open>
  \<open>db.delete(conversation)\<close> removes the row and, by the relationship's cascade, the
  messages of the conversation.
\<close>

definition delete_conversation :: "int \<Rightarrow> session \<Rightarrow> db \<Rightarrow> (error + response) \<times> db" where
  "delete_conversation cid sess d =
     (case get_current_user_from_session sess d of
        Inl e \<Rightarrow> (Inl e, d)
      | Inr None \<Rightarrow> (Inl not_authenticated, d)
      | Inr (Some db_user) \<Rightarrow>
         (if \<not> bindable cid then (Inl int_too_large, d)
          else
          case first (\<lambda>c. c_id c = cid \<and> user_id c = u_id db_user) (conversations d) of
            None \<Rightarrow> (Inl conversation_not_found, d)
          | Some conversation \<Rightarrow>
             (Inr (JSONResponse 200 (JObj [(''message'', JStr ''Conversation deleted'')])),
              d\<lparr>conversations := filter (\<lambda>c. c_id c \<noteq> c_id conversation) (conversations d),
                 messages := filter (\<lambda>m. conversation_id m \<noteq> c_id conversation) (messages d)\<rparr>)))"

text \<open>
  The rows of a conversation in transcript order (ascending timestamp), as \<open>get_messages\<close>
  queries them.
\<close>

definition transcript :: "db \<Rightarrow> int \<Rightarrow> message_row list" where
  "transcript d cid =
     order_by_asc timestamp (filter (\<lambda>m. conversation_id m = cid) (messages d))"

definition get_messages :: "int \<Rightarrow> session \<Rightarrow> db \<Rightarrow> (error + response) \<times> db" where
  "get_messages cid sess d =
     (case get_current_user_from_session sess d of
        Inl e \<Rightarrow> (Inl e, d)
      | Inr None \<Rightarrow> (Inl not_authenticated, d)
      | Inr (Some db_user) \<Rightarrow>
         (if \<not> bindable cid then (Inl int_too_large, d)
          else
          case first (\<lambda>c. c_id c = cid \<and> user_id c = u_id db_user) (conversations d) of
            None \<Rightarrow> (Inl conversation_not_found, d)
          | Some conversation \<Rightarrow>
             (let msgs = transcript d cid
              in (Inr (JSONResponse 200
                    (JObj [(''messages'', JList (map message_json msgs))])), d))))"

subsection \<open>POST /api/chat\<close>

text \<open>
  The frames of the reply stream. Each is sent as one line of JSON with a \<open>"type"\<close>
  entry; the constructors keep the other entries:
  \<open>Meta conversation_id id content timestamp\<close>, \<open>Content content\<close>,
  \<open>Error content\<close>, \<open>Done id content timestamp\<close>.
\<close>

datatype frame =
    Meta int int string datetime
  | Content string
  | Error string
  | Done int string datetime

fun frame_type :: "frame \<Rightarrow> string" where
  "frame_type (Meta _ _ _ _) = ''meta''"
| "frame_type (Content _) = ''content''"
| "frame_type (Error _) = ''error''"
| "frame_type (Done _ _ _) = ''done''"

text \<open>
  What the inference service does on one call. \<open>Failed ex\<close>: opening the stream or
  \<open>raise_for_status\<close> raises an exception whose text is \<open>ex\<close>. \<open>Streaming ls\<close>: the
  response is read line by line. A line is empty (\<open>Blank\<close>), or decodes to an object
  with or without a content fragment and with a truthy or falsy \<open>"done"\<close> entry
  (\<open>Chunk fragment done\<close>), or reading or decoding it raises (\<open>Raises ex\<close>). The
  response body is finite.
\<close>

datatype line =
    Blank
  | Chunk "string option" bool
  | Raises string

datatype upstream =
    Failed string
  | Streaming "line list"

type_synonym ollama_message = "string \<times> string"

text \<open>
  What one invocation does, in the order in which it does it: commits, frames written to
  the client, the history query and the call of the inference service.
\<close>

datatype effect =
    Commit_conversation conversation_row
  | Commit_message message_row
  | Yield frame
  | Select_history "message_row list"
  | Post_ollama "ollama_message list"

text \<open>
  The environment of one invocation: the clock readings taken by the three inserts and
  the behaviour of the inference service.
\<close>

record env =
  now_conversation :: datetime
  now_user_message :: datetime
  now_ai_message :: datetime
  inference :: upstream

definition auto_title :: "string \<Rightarrow> string" where
  "auto_title msg = (if length msg > 50 then take 50 msg @ ''...'' else msg)"

text \<open>
  The body of \<open>chat\<close> up to the construction of the streaming response: the resolved
  conversation id, the committed user message and the effects so far.
\<close>

definition chat_handler ::
  "chat_request \<Rightarrow> session \<Rightarrow> db \<Rightarrow> env \<Rightarrow> (error + int \<times> message_row \<times> effect list) \<times> db" where
  "chat_handler chat_request sess d e =
     (case get_current_user_from_session sess d of
        Inl ex \<Rightarrow> (Inl ex, d)
      | Inr None \<Rightarrow> (Inl not_authenticated, d)
      | Inr (Some db_user) \<Rightarrow>
         (case (if \<not> truthy_int (chat_conversation_id chat_request) then
                  (let new_conversation = \<lparr> c_id = next_id (map c_id (conversations d)),
                                            user_id = u_id db_user,
                                            title = auto_title (message chat_request),
                                            c_created_at = now_conversation e \<rparr>
                   in Inr (c_id new_conversation,
                           d\<lparr>conversations := conversations d @ [new_conversation]\<rparr>,
                           [Commit_conversation new_conversation]))
                else if \<not> bindable (the (chat_conversation_id chat_request)) then
                  Inl int_too_large
                else
                  (case first (\<lambda>c. c_id c = the (chat_conversation_id chat_request)
                                     \<and> user_id c = u_id db_user) (conversations d) of
                     None \<Rightarrow> Inl conversation_not_found
                   | Some conversation \<Rightarrow>
                       Inr (the (chat_conversation_id chat_request), d, []))) of
            Inl ex \<Rightarrow> (Inl ex, d)
          | Inr (cid, d1, effs) \<Rightarrow>
             (let user_message = \<lparr> m_id = next_id (map m_id (messages d1)),
                                   conversation_id = cid,
                                   sender = ''user'',
                                   content = message chat_request,
                                   timestamp = now_user_message e \<rparr>
              in (Inr (cid, user_message, effs @ [Commit_message user_message]),
                  d1\<lparr>messages := messages d1 @ [user_message]\<rparr>))))"

text \<open>The history query and the mapping to role-tagged messages.\<close>

definition history :: "db \<Rightarrow> int \<Rightarrow> message_row list" where
  "history d cid =
     rev (take 10 (order_by_desc timestamp
                     (filter (\<lambda>m. conversation_id m = cid) (messages d))))"

definition ollama_message :: "message_row \<Rightarrow> ollama_message" where
  "ollama_message m = (if sender m = ''user'' then ''user'' else ''assistant'', content m)"

text \<open>
  The loop over the lines of the response: the frames yielded, \<open>full_response\<close>, and the
  text of the exception that ended the loop, if one did.
\<close>

fun read_lines :: "line list \<Rightarrow> string \<Rightarrow> frame list \<times> string \<times> string option" where
  "read_lines [] full_response = ([], full_response, None)"
| "read_lines (Blank # ls) full_response = read_lines ls full_response"
| "read_lines (Raises ex # ls) full_response = ([], full_response, Some ex)"
| "read_lines (Chunk None done # ls) full_response =
     (if done then ([], full_response, None) else read_lines ls full_response)"
| "read_lines (Chunk (Some fragment) done # ls) full_response =
     (if done then ([Content fragment], full_response @ fragment, None)
      else (case read_lines ls (full_response @ fragment) of
              (fs, full, ex) \<Rightarrow> (Content fragment # fs, full, ex)))"

definition try_stream :: "upstream \<Rightarrow> frame list \<times> string \<times> string option" where
  "try_stream up = (case up of Failed ex \<Rightarrow> ([], [], Some ex)
                            | Streaming ls \<Rightarrow> read_lines ls [])"

definition error_msg :: "string \<Rightarrow> string" where
  "error_msg ex = ''Ollama Connection Error: '' @ ex"

text \<open>The \<open>try\<close> statement with its handler: the frames yielded and \<open>full_response\<close>.\<close>

definition stream_reply :: "upstream \<Rightarrow> frame list \<times> string" where
  "stream_reply up =
     (case try_stream up of
        (fs, full, None) \<Rightarrow> (fs, full)
      | (fs, full, Some ex) \<Rightarrow> (fs @ [Error (error_msg ex)], error_msg ex))"

definition event_generator :: "int \<Rightarrow> message_row \<Rightarrow> db \<Rightarrow> env \<Rightarrow> effect list \<times> db" where
  "event_generator cid user_message d e =
     (let hist = history d cid;
          ollama_messages = map ollama_message hist;
          (fs, full_response) = stream_reply (inference e);
          ai_message = \<lparr> m_id = next_id (map m_id (messages d)),
                         conversation_id = cid,
                         sender = ''ai'',
                         content = full_response,
                         timestamp = now_ai_message e \<rparr>
      in ([Yield (Meta cid (m_id user_message) (content user_message) (timestamp user_message)),
           Select_history hist,
           Post_ollama ollama_messages]
          @ map Yield fs
          @ [Commit_message ai_message,
             Yield (Done (m_id ai_message) (content ai_message) (timestamp ai_message))],
          d\<lparr>messages := messages d @ [ai_message]\<rparr>))"

text \<open>One invocation: the handler, then the framework runs the generator to its end.\<close>

definition chat :: "chat_request \<Rightarrow> session \<Rightarrow> db \<Rightarrow> env \<Rightarrow> (error + effect list) \<times> db" where
  "chat chat_request sess d e =
     (case chat_handler chat_request sess d e of
        (Inl ex, d') \<Rightarrow> (Inl ex, d')
      | (Inr (cid, user_message, effs), d') \<Rightarrow>
         (case event_generator cid user_message d' e of
            (effs', d'') \<Rightarrow> (Inr (effs @ effs'), d'')))"

text \<open>Projections of a run.\<close>

fun yielded :: "effect list \<Rightarrow> frame list" where
  "yielded [] = []"
| "yielded (Yield f # es) = f # yielded es"
| "yielded (_ # es) = yielded es"

fun posted :: "effect list \<Rightarrow> ollama_message list list" where
  "posted [] = []"
| "posted (Post_ollama w # es) = w # posted es"
| "posted (_ # es) = posted es"

fun selected :: "effect list \<Rightarrow> message_row list list" where
  "selected [] = []"
| "selected (Select_history h # es) = h # selected es"
| "selected (_ # es) = selected es"

text \<open>The exception that leaves the \<open>try\<close> block, if one does.\<close>

definition raised :: "upstream \<Rightarrow> string option" where
  "raised up = snd (snd (try_stream up))"

section \<open>A sample state and sample runs\<close>

definition alice :: user_row where
  "alice = \<lparr> u_id = 1, google_id = ''g-alice'', email = ''alice@example.org'',
             name = Some ''Alice'', picture = None, u_created_at = 1, last_login = 1 \<rparr>"

definition bob :: user_row where
  "bob = \<lparr> u_id = 2, google_id = ''g-bob'', email = ''bob@example.org'',
           name = None, picture = None, u_created_at = 2, last_login = 2 \<rparr>"

definition alice_claims :: claims where
  "alice_claims = [(''sub'', ''g-alice''), (''email'', ''alice@example.org''),
                   (''name'', ''Alice'')]"

definition carol_claims :: claims where
  "carol_claims = [(''sub'', ''g-carol''), (''email'', ''carol@example.org'')]"

definition example_db :: db where
  "example_db =
     \<lparr> users = [alice, bob],
       conversations = [\<lparr> c_id = 1, user_id = 1, title = ''Hello'', c_created_at = 3 \<rparr>,
                        \<lparr> c_id = 2, user_id = 2, title = ''Private'', c_created_at = 4 \<rparr>],
       messages = [\<lparr> m_id = 1, conversation_id = 1, sender = ''user'', content = ''Hello'',
                     timestamp = 5 \<rparr>,
                   \<lparr> m_id = 2, conversation_id = 1, sender = ''ai'', content = ''Hi!'',
                     timestamp = 6 \<rparr>] \<rparr>"

text \<open>The same state without Bob's conversation.\<close>

definition example_db_without :: db where
  "example_db_without =
     example_db\<lparr>conversations := [\<lparr> c_id = 1, user_id = 1, title = ''Hello'',
                                       c_created_at = 3 \<rparr>]\<rparr>"

definition example_env :: env where
  "example_env = \<lparr> now_conversation = 10, now_user_message = 11, now_ai_message = 12,
                   inference = Streaming [Chunk (Some ''So'') False, Blank,
                                          Chunk (Some ''on'') True] \<rparr>"

definition failing_env :: env where
  "failing_env = \<lparr> now_conversation = 10, now_user_message = 11, now_ai_message = 12,
                   inference = Streaming [Chunk (Some ''So'') False, Raises ''bad line''] \<rparr>"

definition example_request :: chat_request where
  "example_request = \<lparr> message = ''When?'', chat_conversation_id = Some 1 \<rparr>"

definition zero_request :: chat_request where
  "zero_request = \<lparr> message = ''When?'', chat_conversation_id = Some 0 \<rparr>"

definition foreign_request :: chat_request where
  "foreign_request = \<lparr> message = ''When?'', chat_conversation_id = Some 2 \<rparr>"

definition user_message_3 :: message_row where
  "user_message_3 = \<lparr> m_id = 3, conversation_id = 1, sender = ''user'', content = ''When?'',
                      timestamp = 11 \<rparr>"

definition ai_message_4 :: "string \<Rightarrow> message_row" where
  "ai_message_4 reply = \<lparr> m_id = 4, conversation_id = 1, sender = ''ai'', content = reply,
                          timestamp = 12 \<rparr>"

definition example_run :: "effect list" where
  "example_run =
     [Commit_message user_message_3,
      Yield (Meta 1 3 ''When?'' 11),
      Select_history (messages example_db @ [user_message_3]),
      Post_ollama [(''user'', ''Hello''), (''assistant'', ''Hi!''), (''user'', ''When?'')],
      Yield (Content ''So''),
      Yield (Content ''on''),
      Commit_message (ai_message_4 ''Soon''),
      Yield (Done 4 ''Soon'' 12)]"

definition failing_run :: "effect list" where
  "failing_run =
     [Commit_message user_message_3,
      Yield (Meta 1 3 ''When?'' 11),
      Select_history (messages example_db @ [user_message_3]),
      Post_ollama [(''user'', ''Hello''), (''assistant'', ''Hi!''), (''user'', ''When?'')],
      Yield (Content ''So''),
      Yield (Error ''Ollama Connection Error: bad line''),
      Commit_message (ai_message_4 ''Ollama Connection Error: bad line''),
      Yield (Done 4 ''Ollama Connection Error: bad line'' 12)]"

definition db_after :: "string \<Rightarrow> db" where
  "db_after reply =
     example_db\<lparr>messages := messages example_db @ [user_message_3, ai_message_4 reply]\<rparr>"

text \<open>A conversation of twelve messages, numbered in the order of their timestamps.\<close>

definition numbered :: "nat \<Rightarrow> message_row" where
  "numbered n = \<lparr> m_id = int n, conversation_id = 1,
                  sender = (if even n then ''ai'' else ''user''),
                  content = ''text'', timestamp = n \<rparr>"

definition long_db :: db where
  "long_db = example_db\<lparr>messages := map numbered [1, 2, 3, 4, 5, 6, 7, 8, 9, 10, 11, 12]\<rparr>"

definition long_env :: env where
  "long_env = \<lparr> now_conversation = 20, now_user_message = 21, now_ai_message = 22,
                inference = Failed ''refused'' \<rparr>"

definition user_message_13 :: message_row where
  "user_message_13 = \<lparr> m_id = 13, conversation_id = 1, sender = ''user'',
                       content = ''When?'', timestamp = 21 \<rparr>"

definition ai_message_14 :: message_row where
  "ai_message_14 = \<lparr> m_id = 14, conversation_id = 1, sender = ''ai'',
                     content = ''Ollama Connection Error: refused'', timestamp = 22 \<rparr>"

definition long_run :: "effect list" where
  "long_run =
     [Commit_message user_message_13,
      Yield (Meta 1 13 ''When?'' 21),
      Select_history (map numbered [4, 5, 6, 7, 8, 9, 10, 11, 12] @ [user_message_13]),
      Post_ollama (map ollama_message (map numbered [4, 5, 6, 7, 8, 9, 10, 11, 12] @ [user_message_13])),
      Yield (Error ''Ollama Connection Error: refused''),
      Commit_message ai_message_14,
      Yield (Done 14 ''Ollama Connection Error: refused'' 22)]"

definition long_db_after :: db where
  "long_db_after =
     long_db\<lparr>messages := messages long_db @ [user_message_13, ai_message_14]\<rparr>"

definition long_request :: chat_request where
  "long_request = \<lparr> message = replicate 51 CHR ''a'', chat_conversation_id = None \<rparr>"

definition refused_env :: env where
  "refused_env = \<lparr> now_conversation = 10, now_user_message = 11, now_ai_message = 12,
                   inference = Failed ''refused'' \<rparr>"

text \<open>
  The run of a call in conversation 1 whose inference call is refused when the stream is
  opened: the user row, the history selected and the ai row.
\<close>

definition refused_run :: "message_row \<Rightarrow> message_row list \<Rightarrow> message_row \<Rightarrow> effect list" where
  "refused_run um h am =
     [Commit_message um,
      Yield (Meta 1 (m_id um) (content um) (timestamp um)),
      Select_history h,
      Post_ollama (map ollama_message h),
      Yield (Error ''Ollama Connection Error: refused''),
      Commit_message am,
      Yield (Done (m_id am) (content am) (timestamp am))]"

text \<open>
  Clock readings that do not advance: the reading of the user message equals the latest
  stored timestamp (\<open>tie_env\<close>), lies before every stored timestamp (\<open>back_env\<close>), or
  lies after the reading of the ai message (\<open>backward_env\<close>).
\<close>

definition tie_env :: env where
  "tie_env = long_env\<lparr>now_user_message := 12\<rparr>"

definition back_env :: env where
  "back_env = long_env\<lparr>now_user_message := 0\<rparr>"

definition backward_env :: env where
  "backward_env = example_env\<lparr>now_ai_message := 10\<rparr>"

text \<open>An id that is not a signed 64-bit value.\<close>

definition huge_request :: chat_request where
  "huge_request = \<lparr> message = ''When?'', chat_conversation_id = Some (2 ^ 63) \<rparr>"

text \<open>The conversation that a call without conversation id creates in the sample state.\<close>

definition conversation_3 :: conversation_row where
  "conversation_3 = \<lparr> c_id = 3, user_id = 1, title = ''When?'', c_created_at = 10 \<rparr>"

lemmas handler_defs =
  get_current_user_from_session_def truthy_dict_def truthy_int_def first_def
  chat_def chat_handler_def event_generator_def history_def ollama_message_def
  stream_reply_def try_stream_def error_msg_def raised_def auto_title_def
  order_by_asc_def order_by_desc_def transcript_def next_id_def
  not_authenticated_def conversation_not_found_def bindable_def int_too_large_def

lemmas sample_defs =
  alice_def bob_def alice_claims_def carol_claims_def example_db_def example_db_without_def
  example_env_def failing_env_def example_request_def zero_request_def
  foreign_request_def user_message_3_def ai_message_4_def
  example_run_def failing_run_def db_after_def refused_env_def refused_run_def
  backward_env_def huge_request_def conversation_3_def

lemmas long_defs =
  numbered_def long_db_def long_env_def user_message_13_def ai_message_14_def long_run_def
  long_db_after_def tie_env_def back_env_def

section \<open>Runs of the sample\<close>

lemma example_chat:
  "chat example_request (Some alice_claims) example_db example_env
     = (Inr example_run, db_after ''Soon'')"
  by (simp add: handler_defs sample_defs Let_def)

lemma failing_chat:
  "chat example_request (Some alice_claims) example_db failing_env
     = (Inr failing_run, db_after ''Ollama Connection Error: bad line'')"
  by (simp add: handler_defs sample_defs Let_def)

lemma refused_chat:
  "chat example_request (Some alice_claims) example_db refused_env
     = (Inr (refused_run user_message_3 (messages example_db @ [user_message_3])
               (ai_message_4 ''Ollama Connection Error: refused'')),
        db_after ''Ollama Connection Error: refused'')"
  by (simp add: handler_defs sample_defs Let_def)

lemma long_chat:
  "chat example_request (Some alice_claims) long_db long_env = (Inr long_run, long_db_after)"
  by (simp add: handler_defs sample_defs long_defs Let_def)

lemma alice_session:
  "get_current_user_from_session (Some alice_claims) example_db = Inr (Some alice)"
  by (simp add: handler_defs sample_defs Let_def)

section \<open>Auxiliary facts\<close>

lemma yielded_append: "yielded (xs @ ys) = yielded xs @ yielded ys"
  by (induction xs rule: yielded.induct) simp_all

lemma posted_append: "posted (xs @ ys) = posted xs @ posted ys"
  by (induction xs rule: posted.induct) simp_all

lemma selected_append: "selected (xs @ ys) = selected xs @ selected ys"
  by (induction xs rule: selected.induct) simp_all

lemma yielded_map_Yield: "yielded (map Yield fs) = fs"
  by (induction fs) simp_all

lemma posted_map_Yield: "posted (map Yield fs) = []"
  by (induction fs) simp_all

lemma selected_map_Yield: "selected (map Yield fs) = []"
  by (induction fs) simp_all

lemma read_lines_shape:
  "read_lines ls acc = (fs, full, ex) \<Longrightarrow> \<exists>cs. fs = map Content cs \<and> full = acc @ concat cs"
proof (induction ls acc arbitrary: fs full ex rule: read_lines.induct)
  case (5 fragment don ls full_response)
  show ?case
  proof (cases don)
    case True
    with 5 have "fs = map Content [fragment]" "full = full_response @ concat [fragment]" by auto
    then show ?thesis by blast
  next
    case False
    obtain fs' full' ex' where r: "read_lines ls (full_response @ fragment) = (fs', full', ex')"
      by (cases "read_lines ls (full_response @ fragment)") auto
    from 5(1)[OF False r] obtain cs where cs: "fs' = map Content cs" "full' = (full_response @ fragment) @ concat cs"
      by blast
    from 5(2) False r have "fs = Content fragment # fs'" "full = full'" by auto
    with cs have "fs = map Content (fragment # cs)" "full = full_response @ concat (fragment # cs)" by auto
    then show ?thesis by blast
  qed
qed (auto split: if_splits)

lemma sort_key_snoc:
  "\<forall>x \<in> set xs. k x \<le> k y \<Longrightarrow> sort_key k (xs @ [y]) = sort_key k xs @ [y]"
proof (induction xs)
  case Nil
  then show ?case by simp
next
  case (Cons a xs)
  have "\<And>zs. \<forall>x\<in>set zs. k x \<le> k y \<Longrightarrow> k a \<le> k y \<Longrightarrow> insort_key k a (zs @ [y]) = insort_key k a zs @ [y]"
    subgoal for zs by (induction zs) auto
    done
  with Cons show ?case by simp
qed


lemma chat_handler_run:
  assumes "chat_handler req sess d e = (Inr (cid, um, effs), d')"
  shows "\<exists>u pre. get_current_user_from_session sess d = Inr (Some u)
           \<and> um = \<lparr> m_id = next_id (map m_id (messages d)), conversation_id = cid,
                    sender = ''user'', content = message req,
                    timestamp = now_user_message e \<rparr>
           \<and> messages d' = messages d @ [um]
           \<and> users d' = users d
           \<and> effs = pre @ [Commit_message um]
           \<and> (pre = [] \<and> conversations d' = conversations d
                 \<and> chat_conversation_id req = Some cid \<and> cid \<noteq> 0
               \<or> (\<exists>c. pre = [Commit_conversation c]
                      \<and> conversations d' = conversations d @ [c]
                      \<and> c = \<lparr> c_id = next_id (map c_id (conversations d)),
                               user_id = u_id u, title = auto_title (message req),
                               c_created_at = now_conversation e \<rparr>
                      \<and> c_id c = cid
                      \<and> (chat_conversation_id req = None
                          \<or> chat_conversation_id req = Some 0)))"
  using assms
  by (auto simp: chat_handler_def truthy_int_def Let_def
      split: sum.splits option.splits if_splits)

lemma chat_run:
  assumes "chat req sess d e = (Inr tr, d')"
  shows "\<exists>cid um am pre dm fs full.
           chat_handler req sess d e = (Inr (cid, um, pre @ [Commit_message um]), dm)
         \<and> um = \<lparr> m_id = next_id (map m_id (messages d)), conversation_id = cid,
                  sender = ''user'', content = message req,
                  timestamp = now_user_message e \<rparr>
         \<and> messages dm = messages d @ [um]
         \<and> stream_reply (inference e) = (fs, full)
         \<and> am = \<lparr> m_id = next_id (map m_id (messages dm)), conversation_id = cid,
                  sender = ''ai'', content = full, timestamp = now_ai_message e \<rparr>
         \<and> tr = pre @ [Commit_message um,
                        Yield (Meta cid (m_id um) (content um) (timestamp um)),
                        Select_history (history dm cid),
                        Post_ollama (map ollama_message (history dm cid))]
                  @ map Yield fs
                  @ [Commit_message am, Yield (Done (m_id am) (content am) (timestamp am))]
         \<and> d' = dm\<lparr>messages := messages dm @ [am]\<rparr>
         \<and> yielded pre = [] \<and> posted pre = [] \<and> selected pre = []
         \<and> (chat_conversation_id req = Some cid \<and> cid \<noteq> 0
               \<and> conversations d' = conversations d
             \<or> (chat_conversation_id req = None \<or> chat_conversation_id req = Some 0)
               \<and> (\<exists>c. conversations d' = conversations d @ [c] \<and> c_id c = cid))"
proof -
  obtain r dm where h: "chat_handler req sess d e = (r, dm)"
    by (cases "chat_handler req sess d e") auto
  with assms obtain cid um effs where r: "r = Inr (cid, um, effs)"
    by (cases r) (auto simp: chat_def split: prod.splits)
  from chat_handler_run[OF h[unfolded r]] obtain pre where
    pre: "effs = pre @ [Commit_message um]"
      "pre = [] \<or> (\<exists>c. pre = [Commit_conversation c])"
    and um: "um = \<lparr> m_id = next_id (map m_id (messages d)), conversation_id = cid,
                  sender = ''user'', content = message req,
                  timestamp = now_user_message e \<rparr>"
    and dm: "messages dm = messages d @ [um]"
    and tie: "chat_conversation_id req = Some cid \<and> cid \<noteq> 0
               \<and> conversations dm = conversations d
             \<or> (chat_conversation_id req = None \<or> chat_conversation_id req = Some 0)
               \<and> (\<exists>c. conversations dm = conversations d @ [c] \<and> c_id c = cid)"
    by blast
  obtain fs full where sr: "stream_reply (inference e) = (fs, full)"
    by (cases "stream_reply (inference e)") auto
  from pre(2) have p: "yielded pre = []" "posted pre = []" "selected pre = []" by auto
  define am where "am = \<lparr> m_id = next_id (map m_id (messages dm)), conversation_id = cid,
                  sender = ''ai'', content = full, timestamp = now_ai_message e \<rparr>"
  have tr: "tr = pre @ [Commit_message um,
                        Yield (Meta cid (m_id um) (content um) (timestamp um)),
                        Select_history (history dm cid),
                        Post_ollama (map ollama_message (history dm cid))]
                  @ map Yield fs
                  @ [Commit_message am, Yield (Done (m_id am) (content am) (timestamp am))]"
    and d': "d' = dm\<lparr>messages := messages dm @ [am]\<rparr>"
    using assms h r pre(1) sr
    by (simp_all add: chat_def event_generator_def Let_def am_def)
  from tie d' have tie': "chat_conversation_id req = Some cid \<and> cid \<noteq> 0
               \<and> conversations d' = conversations d
             \<or> (chat_conversation_id req = None \<or> chat_conversation_id req = Some 0)
               \<and> (\<exists>c. conversations d' = conversations d @ [c] \<and> c_id c = cid)"
    by simp
  from h[unfolded r pre(1)] um dm sr am_def tr d' p tie' show ?thesis
    by blast
qed

lemma stream_reply_shape:
  assumes "stream_reply up = (fs, full)"
  shows "\<exists>cs errs. fs = map Content cs @ errs
           \<and> (errs = [] \<and> full = concat cs \<and> raised up = None
               \<or> (\<exists>ex. errs = [Error (error_msg ex)] \<and> full = error_msg ex
                        \<and> raised up = Some ex))"
proof (cases up)
  case (Failed ex)
  with assms have "fs = map Content [] @ [Error (error_msg ex)]" "full = error_msg ex"
    "raised up = Some ex"
    by (auto simp: stream_reply_def try_stream_def raised_def)
  then show ?thesis by blast
next
  case (Streaming ls)
  obtain fs0 full0 ex0 where r: "read_lines ls [] = (fs0, full0, ex0)"
    by (cases "read_lines ls []") auto
  from read_lines_shape[OF r] obtain cs where cs: "fs0 = map Content cs" "full0 = concat cs"
    by auto
  show ?thesis
  proof (cases ex0)
    case None
    with assms Streaming r cs have "fs = map Content cs @ []" "full = concat cs" "raised up = None"
      by (auto simp: stream_reply_def try_stream_def raised_def)
    then show ?thesis by blast
  next
    case (Some ex)
    with assms Streaming r cs have "fs = map Content cs @ [Error (error_msg ex)]"
      "full = error_msg ex" "raised up = Some ex"
      by (auto simp: stream_reply_def try_stream_def raised_def)
    then show ?thesis by blast
  qed
qed

lemma read_lines_raises_iff:
  "snd (snd (read_lines ls acc)) = Some ex \<longleftrightarrow>
     (\<exists>pre post. ls = pre @ Raises ex # post
        \<and> (\<forall>l \<in> set pre. l = Blank \<or> (\<exists>c. l = Chunk c False)))"
proof (induction ls acc rule: read_lines.induct)
  case (1 full_response)
  then show ?case by simp
next
  case (2 ls full_response)
  show ?case (is "?L = ?R")
  proof
    assume ?L
    with 2 obtain pre post where "ls = pre @ Raises ex # post"
      "\<forall>l \<in> set pre. l = Blank \<or> (\<exists>c. l = Chunk c False)" by auto
    then have "Blank # ls = (Blank # pre) @ Raises ex # post"
      "\<forall>l \<in> set (Blank # pre). l = Blank \<or> (\<exists>c. l = Chunk c False)" by auto
    then show ?R by blast
  next
    assume ?R
    then obtain pre post where p: "Blank # ls = pre @ Raises ex # post"
      "\<forall>l \<in> set pre. l = Blank \<or> (\<exists>c. l = Chunk c False)" by blast
    then obtain pre' where "pre = Blank # pre'" by (cases pre) auto
    with p have "ls = pre' @ Raises ex # post"
      "\<forall>l \<in> set pre'. l = Blank \<or> (\<exists>c. l = Chunk c False)" by auto
    with 2 show ?L by auto
  qed
next
  case (3 ex' ls full_response)
  show ?case (is "?L = ?R")
  proof
    assume ?L
    then have "Raises ex' # ls = [] @ Raises ex # ls" by simp
    then show ?R by fastforce
  next
    assume ?R
    then obtain pre post where p: "Raises ex' # ls = pre @ Raises ex # post"
      "\<forall>l \<in> set pre. l = Blank \<or> (\<exists>c. l = Chunk c False)" by blast
    then have "pre = []" by (cases pre) auto
    with p show ?L by simp
  qed
next
  case (4 don ls full_response)
  show ?case (is "?L = ?R")
  proof
    assume l: ?L
    then have nd: "\<not> don" by (auto split: if_splits)
    with 4 l obtain pre post where "ls = pre @ Raises ex # post"
      "\<forall>l \<in> set pre. l = Blank \<or> (\<exists>c. l = Chunk c False)" by auto
    with nd have "Chunk None don # ls = (Chunk None don # pre) @ Raises ex # post"
      "\<forall>l \<in> set (Chunk None don # pre). l = Blank \<or> (\<exists>c. l = Chunk c False)" by auto
    then show ?R by blast
  next
    assume ?R
    then obtain pre post where p: "Chunk None don # ls = pre @ Raises ex # post"
      "\<forall>l \<in> set pre. l = Blank \<or> (\<exists>c. l = Chunk c False)" by blast
    then obtain pre' where pre': "pre = Chunk None don # pre'" by (cases pre) auto
    with p have "\<not> don" "ls = pre' @ Raises ex # post"
      "\<forall>l \<in> set pre'. l = Blank \<or> (\<exists>c. l = Chunk c False)" by auto
    with 4 show ?L by auto
  qed
next
  case (5 fragment don ls full_response)
  show ?case (is "?L = ?R")
  proof
    assume l: ?L
    then have nd: "\<not> don" by (auto split: if_splits)
    with l have "snd (snd (read_lines ls (full_response @ fragment))) = Some ex"
      by (auto split: prod.splits)
    with 5 nd obtain pre post where "ls = pre @ Raises ex # post"
      "\<forall>l \<in> set pre. l = Blank \<or> (\<exists>c. l = Chunk c False)" by auto
    with nd have "Chunk (Some fragment) don # ls = (Chunk (Some fragment) don # pre) @ Raises ex # post"
      "\<forall>l \<in> set (Chunk (Some fragment) don # pre). l = Blank \<or> (\<exists>c. l = Chunk c False)" by auto
    then show ?R by blast
  next
    assume ?R
    then obtain pre post where p: "Chunk (Some fragment) don # ls = pre @ Raises ex # post"
      "\<forall>l \<in> set pre. l = Blank \<or> (\<exists>c. l = Chunk c False)" by blast
    then obtain pre' where pre': "pre = Chunk (Some fragment) don # pre'" by (cases pre) auto
    with p have "\<not> don" "ls = pre' @ Raises ex # post"
      "\<forall>l \<in> set pre'. l = Blank \<or> (\<exists>c. l = Chunk c False)" by auto
    with 5 show ?L by (auto split: prod.splits)
  qed
qed

lemma raised_Failed: "raised (Failed ex) = Some ex"
  by (simp add: raised_def try_stream_def)

lemma raised_Streaming:
  "raised (Streaming ls) = Some ex \<longleftrightarrow>
     (\<exists>pre post. ls = pre @ Raises ex # post
        \<and> (\<forall>l \<in> set pre. l = Blank \<or> (\<exists>c. l = Chunk c False)))"
  by (simp add: raised_def try_stream_def read_lines_raises_iff)

lemma history_drop:
  "history d cid =
     (let ys = sort_key timestamp (rev (filter (\<lambda>m. conversation_id m = cid) (messages d)))
      in drop (length ys - 10) ys)"
  by (simp add: history_def order_by_desc_def Let_def rev_take)

lemma sorted_le_last: "sorted xs \<Longrightarrow> x \<in> set xs \<Longrightarrow> x \<le> last xs"
  for xs :: "nat list"
  by (induction xs) auto

lemma history_last:
  assumes "um \<in> set (messages dq)" and "conversation_id um = cid"
    and "\<forall>m \<in> set (messages dq).
           conversation_id m = cid \<and> m \<noteq> um \<longrightarrow> timestamp m < timestamp um"
  shows "history dq cid \<noteq> [] \<and> last (history dq cid) = um"
proof -
  let ?ys = "sort_key timestamp (rev (filter (\<lambda>m. conversation_id m = cid) (messages dq)))"
  have mem: "um \<in> set ?ys"
    using assms(1,2) by simp
  then have ne: "?ys \<noteq> []"
    by (metis empty_iff empty_set)
  have srt: "sorted (map timestamp ?ys)"
    by (rule sorted_sort_key)
  have "last ?ys = um"
  proof (rule ccontr)
    assume neq: "last ?ys \<noteq> um"
    from ne have "last ?ys \<in> set ?ys"
      by (rule last_in_set)
    then have "last ?ys \<in> set (messages dq)" "conversation_id (last ?ys) = cid"
      by auto
    with assms(3) neq have lt: "timestamp (last ?ys) < timestamp um"
      by blast
    from mem have "timestamp um \<in> timestamp ` set ?ys"
      by (rule imageI)
    then have "timestamp um \<in> set (map timestamp ?ys)"
      by (simp only: set_map)
    with srt have "timestamp um \<le> last (map timestamp ?ys)"
      by (rule sorted_le_last)
    with ne have "timestamp um \<le> timestamp (last ?ys)"
      by (simp add: last_map)
    with lt show False by simp
  qed
  moreover have "length ?ys - 10 < length ?ys"
    using ne by (cases ?ys) simp_all
  ultimately show ?thesis
    by (simp add: history_drop Let_def del: length_sort)
qed

lemma transcript_snoc2:
  assumes "\<forall>m \<in> set ms. conversation_id m = cid \<longrightarrow> timestamp m < timestamp a"
    and "timestamp a < timestamp b"
    and "conversation_id a = cid" and "conversation_id b = cid"
  shows "transcript (d\<lparr>messages := ms @ [a, b]\<rparr>) cid
           = transcript (d\<lparr>messages := ms\<rparr>) cid @ [a, b]"
proof -
  let ?old = "filter (\<lambda>m. conversation_id m = cid) ms"
  have 1: "\<forall>x \<in> set ?old. timestamp x \<le> timestamp a"
    using assms(1) by (auto intro: less_imp_le)
  have 2: "\<forall>x \<in> set (?old @ [a]). timestamp x \<le> timestamp b"
    using assms(1,2) by (auto intro: less_imp_le dest: less_trans)
  have "sort_key timestamp ((?old @ [a]) @ [b]) = sort_key timestamp (?old @ [a]) @ [b]"
    using 2 by (rule sort_key_snoc)
  also have "sort_key timestamp (?old @ [a]) = sort_key timestamp ?old @ [a]"
    using 1 by (rule sort_key_snoc)
  finally show ?thesis
    using assms(3,4) by (simp add: transcript_def order_by_asc_def)
qed

lemma transcript_sorted: "sorted (map timestamp (transcript d cid))"
  by (simp add: transcript_def order_by_asc_def)

lemma transcript_rows:
  "set (transcript d cid) = {m \<in> set (messages d). conversation_id m = cid}
   \<and> length (transcript d cid)
       = length (filter (\<lambda>m. conversation_id m = cid) (messages d))"
  by (simp add: transcript_def order_by_asc_def)

lemma first_None_iff: "first P rows = None \<longleftrightarrow> (\<forall>x \<in> set rows. \<not> P x)"
  by (auto simp: first_def find_None_iff)

lemma chat_handler_not_found:
  assumes "get_current_user_from_session sess d = Inr (Some u)"
    and "chat_conversation_id req = Some cid" and "cid \<noteq> 0" and "bindable cid"
    and "\<forall>c \<in> set (conversations d). c_id c = cid \<longrightarrow> user_id c \<noteq> u_id u"
  shows "chat req sess d e = (Inl conversation_not_found, d)"
proof -
  have "first (\<lambda>c. c_id c = cid \<and> user_id c = u_id u) (conversations d) = None"
    using assms(5) by (auto simp: first_None_iff)
  then show ?thesis
    using assms(1-4) by (simp add: chat_def chat_handler_def truthy_int_def)
qed

text \<open>
  A session either holds no claims, or its subject has no row, exactly when the lookup
  returns nothing; and \<open>auth\<close> only ever stores claims that have a subject.
\<close>

lemma no_user_iff:
  "get_current_user_from_session sess d = Inr None \<longleftrightarrow>
     (\<not> truthy_dict sess
      \<or> (\<exists>g. map_of (the sess) ''sub'' = Some g \<and> (\<forall>u \<in> set (users d). google_id u \<noteq> g)))"
  by (auto simp: get_current_user_from_session_def first_None_iff split: option.splits)

lemma auth_session_has_sub:
  assumes "auth user sess d now = (Inr r, sess', d')" and "truthy_dict user"
  shows "sess' = user \<and> (\<exists>g. map_of (the user) ''sub'' = Some g)"
  using assms
  by (auto simp: auth_def truthy_dict_def Let_def split: option.splits if_splits)

section \<open>The claims\<close>

text \<open>
  C1. Every invocation of \<open>POST /api/chat\<close> that reaches the streaming phase commits the
  user's message before it emits a frame: the run has the commit of a row with sender
  \<open>"user"\<close> and the request's text at a position before which nothing is yielded, and
  the row is in the state the handler leaves to the generator. The frames are one
  \<open>meta\<close> frame, then content frames, then at most one \<open>error\<close> frame, then one \<open>done\<close>
  frame.
\<close>

theorem chat_commit_precedes_ordered_frames:
  assumes "chat req sess d e = (Inr tr, d')"
  shows "\<exists>pre post um cid cs errs aid full t.
           tr = pre @ Commit_message um # post
         \<and> yielded pre = []
         \<and> sender um = ''user'' \<and> content um = message req
         \<and> um \<in> set (messages (snd (chat_handler req sess d e)))
         \<and> yielded tr = [Meta cid (m_id um) (content um) (timestamp um)]
                          @ map Content cs @ errs @ [Done aid full t]
         \<and> (errs = [] \<or> (\<exists>x. errs = [Error x]))"
proof -
  from chat_run[OF assms] obtain cid um am pre dm fs full where
    h: "chat_handler req sess d e = (Inr (cid, um, pre @ [Commit_message um]), dm)"
    and sr: "stream_reply (inference e) = (fs, full)"
    and tr: "tr = pre @ [Commit_message um,
                        Yield (Meta cid (m_id um) (content um) (timestamp um)),
                        Select_history (history dm cid),
                        Post_ollama (map ollama_message (history dm cid))]
                  @ map Yield fs
                  @ [Commit_message am, Yield (Done (m_id am) (content am) (timestamp am))]"
    and pre: "yielded pre = []"
    by blast
  from chat_handler_run[OF h] have um: "sender um = ''user''" "content um = message req"
    "um \<in> set (messages (snd (chat_handler req sess d e)))"
    by (auto simp: h)
  from stream_reply_shape[OF sr] obtain cs errs where
    fs: "fs = map Content cs @ errs" "errs = [] \<or> (\<exists>x. errs = [Error x])"
    by blast
  from tr pre fs(1) have y: "yielded tr = [Meta cid (m_id um) (content um) (timestamp um)]
      @ map Content cs @ errs @ [Done (m_id am) (content am) (timestamp am)]"
    by (simp add: yielded_append yielded_map_Yield del: map_append)
  from tr have "tr = pre @ Commit_message um #
      ([Yield (Meta cid (m_id um) (content um) (timestamp um)),
        Select_history (history dm cid),
        Post_ollama (map ollama_message (history dm cid))]
       @ map Yield fs
       @ [Commit_message am, Yield (Done (m_id am) (content am) (timestamp am))])"
    by simp
  with pre um y fs(2) show ?thesis by blast
qed

theorem chat_commit_precedes_ordered_frames_witness:
  "chat example_request (Some alice_claims) example_db example_env
     = (Inr example_run, db_after ''Soon'')
   \<and> yielded example_run
       = [Meta 1 3 ''When?'' 11, Content ''So'', Content ''on'', Done 4 ''Soon'' 12]
   \<and> (\<exists>pre post um cid cs errs aid full t.
           example_run = pre @ Commit_message um # post
         \<and> yielded pre = []
         \<and> sender um = ''user'' \<and> content um = message example_request
         \<and> um \<in> set (messages (snd (chat_handler example_request (Some alice_claims)
                                          example_db example_env)))
         \<and> yielded example_run = [Meta cid (m_id um) (content um) (timestamp um)]
                          @ map Content cs @ errs @ [Done aid full t]
         \<and> (errs = [] \<or> (\<exists>x. errs = [Error x])))"
proof -
  have "yielded example_run
          = [Meta 1 3 ''When?'' 11, Content ''So'', Content ''on'', Done 4 ''Soon'' 12]"
    by (simp add: example_run_def)
  with example_chat chat_commit_precedes_ordered_frames[OF example_chat]
  show ?thesis by (intro conjI)
qed

text \<open>
  C6. When the session does not resolve to a row of the users table, each of
  \<open>GET /api/conversations\<close>, \<open>POST /api/conversations\<close>,
  \<open>DELETE /api/conversations/{id}\<close>, \<open>GET /api/conversations/{id}/messages\<close> and
  \<open>POST /api/chat\<close> answers HTTP 401 and leaves the database as it was.
\<close>

theorem unauthenticated_401_no_change:
  fixes ttl :: "string option"
  assumes "get_current_user_from_session sess d = Inr None"
  shows "get_conversations sess d = (Inl (HTTPException 401 ''Not authenticated''), d)
       \<and> create_conversation ttl sess d now
           = (Inl (HTTPException 401 ''Not authenticated''), d)
       \<and> delete_conversation cid sess d = (Inl (HTTPException 401 ''Not authenticated''), d)
       \<and> get_messages cid sess d = (Inl (HTTPException 401 ''Not authenticated''), d)
       \<and> chat req sess d e = (Inl (HTTPException 401 ''Not authenticated''), d)"
  using assms
  by (simp add: get_conversations_def create_conversation_def delete_conversation_def
      get_messages_def chat_def chat_handler_def not_authenticated_def)

theorem unauthenticated_401_no_change_witness:
  "get_current_user_from_session (Some carol_claims) example_db = Inr None
   \<and> get_conversations (Some carol_claims) example_db
       = (Inl (HTTPException 401 ''Not authenticated''), example_db)
   \<and> create_conversation (Some ''New Chat'') (Some carol_claims) example_db 10
       = (Inl (HTTPException 401 ''Not authenticated''), example_db)
   \<and> delete_conversation 1 (Some carol_claims) example_db
       = (Inl (HTTPException 401 ''Not authenticated''), example_db)
   \<and> get_messages 1 (Some carol_claims) example_db
       = (Inl (HTTPException 401 ''Not authenticated''), example_db)
   \<and> chat example_request (Some carol_claims) example_db example_env
       = (Inl (HTTPException 401 ''Not authenticated''), example_db)"
proof -
  have h: "get_current_user_from_session (Some carol_claims) example_db = Inr None"
    by (simp add: handler_defs sample_defs)
  from unauthenticated_401_no_change[OF h, of "Some ''New Chat''" 10 1 example_request
      example_env]
  show ?thesis using h by simp
qed

text \<open>
  C7. A chat request without \<open>conversation_id\<close> from an authenticated caller creates a
  conversation of the caller whose title is the message itself when the message has at
  most 50 characters, and its first 50 characters followed by \<open>"..."\<close> when it has more:
  a message of 51 characters gives a title of 53, a message of 50 its own text.
\<close>

theorem auto_title_truncates_at_50:
  assumes "get_current_user_from_session sess d = Inr (Some u)"
    and "chat_conversation_id req = None"
  shows "\<exists>c rest.
           fst (chat req sess d e) = Inr (Commit_conversation c # rest)
         \<and> conversations (snd (chat req sess d e)) = conversations d @ [c]
         \<and> user_id c = u_id u
         \<and> (length (message req) \<le> 50 \<longrightarrow> title c = message req)
         \<and> (length (message req) > 50 \<longrightarrow> title c = take 50 (message req) @ ''...'')
         \<and> (length (message req) = 51 \<longrightarrow> length (title c) = 53)
         \<and> (length (message req) = 50 \<longrightarrow> title c = message req)"
  using assms
  by (simp add: chat_def chat_handler_def event_generator_def truthy_int_def auto_title_def
      Let_def split: prod.splits)

theorem auto_title_truncates_at_50_witness:
  "get_current_user_from_session (Some alice_claims) example_db = Inr (Some alice)
   \<and> chat_conversation_id long_request = None
   \<and> length (message long_request) = 51
   \<and> (\<exists>c rest.
           fst (chat long_request (Some alice_claims) example_db example_env)
             = Inr (Commit_conversation c # rest)
         \<and> conversations (snd (chat long_request (Some alice_claims) example_db example_env))
             = conversations example_db @ [c]
         \<and> user_id c = u_id alice
         \<and> title c = take 50 (message long_request) @ ''...''
         \<and> length (title c) = 53)"
proof -
  have h2: "chat_conversation_id long_request = None"
    and n: "length (message long_request) = 51"
    by (simp_all add: long_request_def)
  from auto_title_truncates_at_50[OF alice_session h2, of example_env] n
  have "\<exists>c rest.
           fst (chat long_request (Some alice_claims) example_db example_env)
             = Inr (Commit_conversation c # rest)
         \<and> conversations (snd (chat long_request (Some alice_claims) example_db example_env))
             = conversations example_db @ [c]
         \<and> user_id c = u_id alice
         \<and> title c = take 50 (message long_request) @ ''...''
         \<and> length (title c) = 53"
    by auto
  with alice_session h2 n show ?thesis by (intro conjI)
qed

text \<open>
  C8. A provider callback whose subject already has a row in the users table inserts
  nothing and updates nothing: the database after \<open>GET /auth\<close> is the database before
  it (so the row keeps its email, name, picture, created_at and last_login); the claims
  are stored in the session and the browser is redirected.
\<close>

theorem second_callback_leaves_users_unchanged:
  assumes "map_of cl ''sub'' = Some g"
    and "\<exists>u \<in> set (users d). google_id u = g"
  shows "auth (Some cl) sess d now
           = (Inr (RedirectResponse ''http://localhost:3000/chat''), Some cl, d)"
proof -
  from assms(1) have ne: "cl \<noteq> []" by auto
  from assms(2) obtain u where "first (\<lambda>u. google_id u = g) (users d) = Some u"
    by (cases "first (\<lambda>u. google_id u = g) (users d)") (auto simp: first_None_iff)
  with assms(1) ne show ?thesis
    by (simp add: auth_def truthy_dict_def)
qed

theorem second_callback_leaves_users_unchanged_witness:
  "map_of alice_claims ''sub'' = Some ''g-alice''
   \<and> (\<exists>u \<in> set (users example_db). google_id u = ''g-alice'')
   \<and> auth (Some alice_claims) None example_db 30
       = (Inr (RedirectResponse ''http://localhost:3000/chat''), Some alice_claims,
          example_db)"
proof -
  have h1: "map_of alice_claims ''sub'' = Some ''g-alice''"
    by (simp add: alice_claims_def)
  have h2: "\<exists>u \<in> set (users example_db). google_id u = ''g-alice''"
    by (simp add: example_db_def alice_def)
  from second_callback_leaves_users_unchanged[OF h1 h2, of None 30] h1 h2
  show ?thesis by (intro conjI)
qed

text \<open>
  C9. When the provider returns no claims (nothing, or an empty dictionary),
  \<open>GET /auth\<close> answers with the JSON body \<open>{"error": "Authentication failed"}\<close> under
  status 200, inserts no row and leaves the session as it was.
\<close>

theorem no_claims_json_error_200:
  assumes "user = None \<or> user = Some []"
  shows "auth user sess d now
           = (Inr (JSONResponse 200 (JObj [(''error'', JStr ''Authentication failed'')])),
              sess, d)"
  using assms by (auto simp: auth_def truthy_dict_def)

theorem no_claims_json_error_200_witness:
  "(Some [] = (None :: claims option) \<or> Some [] = (Some [] :: claims option))
   \<and> auth (Some []) None example_db 30
       = (Inr (JSONResponse 200 (JObj [(''error'', JStr ''Authentication failed'')])),
          None, example_db)"
proof -
  have h: "Some [] = (None :: claims option) \<or> Some [] = (Some [] :: claims option)"
    by simp
  from no_claims_json_error_200[OF h, of None example_db 30] h
  show ?thesis by (intro conjI)
qed

end
